theory Spec2Isabelle
  imports
    Main
    "HOL-Library.Char_ord"
    "HOL-Library.List_Lexorder"
    "HOL-Library.Option_ord"
    "HOL-Library.Product_Lexorder"
begin

text \<open>
  A model of the precinct map service: the schema it creates at every start, the loader of
  the results CSV, the loader of the precincts GeoJSON, and the six read operations it
  serves over the two tables.
\<close>

section \<open>JavaScript values\<close>

text \<open>
  The scalar values a property of a GeoJSON feature can hold once the document is parsed.
  \<open>Num\<close> carries an integer-valued number, below \<open>10^15\<close> in magnitude; fractional
  numbers, and arrays or objects nested inside a properties map, are outside the model
  (attribute tables of precinct shapes hold scalars).
\<close>

datatype jsval = Undefined | Null | Bool bool | Num int | Str string

text \<open>Truthiness, as \<open>||\<close> and \<open>!\<close> test it.\<close>

fun truthy :: "jsval \<Rightarrow> bool" where
  "truthy Undefined = False"
| "truthy Null = False"
| "truthy (Bool b) = b"
| "truthy (Num n) = (n \<noteq> 0)"
| "truthy (Str s) = (s \<noteq> [])"

text \<open>\<open>a || b\<close>: the left operand when it is truthy, the right one otherwise.\<close>

definition js_or :: "jsval \<Rightarrow> jsval \<Rightarrow> jsval" where
  "js_or a b = (if truthy a then a else b)"

text \<open>Decimal rendering of an index or a number.\<close>

fun show_nat :: "nat \<Rightarrow> string" where
  "show_nat n =
     (if n < 10 then [''0123456789'' ! n]
      else show_nat (n div 10) @ [''0123456789'' ! (n mod 10)])"

declare show_nat.simps [simp del]

definition show_int :: "int \<Rightarrow> string" where
  "show_int i = (if i < 0 then CHR ''-'' # show_nat (nat (- i)) else show_nat (nat i))"

text \<open>\<open>String(v)\<close>.\<close>

fun js_String :: "jsval \<Rightarrow> string" where
  "js_String Undefined = ''undefined''"
| "js_String Null = ''null''"
| "js_String (Bool b) = (if b then ''true'' else ''false'')"
| "js_String (Num n) = show_int n"
| "js_String (Str s) = s"

text \<open>
  \<open>props.name\<close> on a properties object: the value of the member, \<open>undefined\<close> when
  the object has no such member. The object is the list of its members, keys distinct.
\<close>

definition get_prop :: "(string \<times> jsval) list \<Rightarrow> string \<Rightarrow> jsval" where
  "get_prop props name = (case map_of props name of None \<Rightarrow> Undefined | Some v \<Rightarrow> v)"

text \<open>
  A feature of the GeoJSON document. \<open>feat_properties\<close> is \<open>None\<close> when the member is
  \<open>null\<close>. The loader touches the geometry object only through \<open>JSON.stringify\<close>, so
  \<open>feat_geometry\<close> holds the text \<open>JSON.stringify(feat.geometry)\<close> returns, \<open>None\<close>
  when it returns \<open>undefined\<close> (a feature with no geometry member).
\<close>

record feature =
  feat_properties :: "(string \<times> jsval) list option"
  feat_geometry :: "string option"

section \<open>The store\<close>

text \<open>
  A value of a column declared \<open>TEXT\<close>: \<open>NULL\<close> or a text. The column turns a number it
  is handed into its text, so it holds nothing else here.
\<close>

type_synonym sqltext = "string option"

text \<open>
  A value of the column \<open>votes INTEGER\<close>. \<open>SqlReal n j\<close> is the \<open>REAL\<close> that the store
  keeps for the decimal number \<open>n / 10^j\<close>, where \<open>n\<close> is not a multiple of ten and
  \<open>j\<close> is positive, so that the number is no integer and is written in one way only.
  \<open>SqlNumeric t\<close> is the number the store computes from the text \<open>t\<close> where the result
  depends on the rounding of its floating-point conversion (more than 15 significant
  digits, or a magnitude outside the exact range); it may be an \<open>INTEGER\<close> or a \<open>REAL\<close>
  and is kept by its text.
\<close>

datatype sqlval =
  SqlNull | SqlInteger int | SqlReal int nat | SqlNumeric string | SqlText string

record precinct_row =
  pctkey :: sqltext
  county :: sqltext
  jurisdiction :: sqltext
  district :: sqltext
  geometry :: sqltext

record result_row =
  res_pctkey :: sqltext
  office :: sqltext
  candidate :: sqltext
  votes :: sqlval
  party :: sqltext

record store =
  precincts :: "precinct_row list"
  results :: "result_row list"

datatype sql_error = SqlError (code: string) (message: string)

text \<open>
  Binding a JavaScript value to a parameter of a \<open>TEXT\<close> column: \<open>undefined\<close> and
  \<open>null\<close> are \<open>NULL\<close>; a boolean is bound as the integer 1 or 0 and a number that fits
  32 bits as an integer, which the column stores as decimal text; a larger number is
  bound as a double, whose text has a fraction part.
\<close>

fun bind_text :: "jsval \<Rightarrow> sqltext" where
  "bind_text Undefined = None"
| "bind_text Null = None"
| "bind_text (Bool b) = Some (if b then ''1'' else ''0'')"
| "bind_text (Num n) =
     Some (if - (2 ^ 31) \<le> n \<and> n < 2 ^ 31 then show_int n else show_int n @ ''.0'')"
| "bind_text (Str s) = Some s"

subsection \<open>The column \<open>votes INTEGER\<close>\<close>

text \<open>
  A text stored into a column of \<open>INTEGER\<close> affinity is converted when it reads as a
  number: optional white space, an optional sign, digits with an optional fraction and an
  optional exponent, optional white space. A text that is a plain integer within 64 bits
  becomes that integer; any other well-formed number is converted as a real number;
  every other text is stored as it is.
\<close>

definition isspace :: "char \<Rightarrow> bool" where
  "isspace c = (c \<in> set [CHR '' '', CHR 0x09, CHR 0x0A, CHR 0x0B, CHR 0x0C, CHR 0x0D])"

definition isdigit :: "char \<Rightarrow> bool" where
  "isdigit c = (c \<in> set ''0123456789'')"

text \<open>\<open>take_char P z\<close> consumes the first character of \<open>z\<close> when it satisfies \<open>P\<close>.\<close>

fun take_char :: "(char \<Rightarrow> bool) \<Rightarrow> string \<Rightarrow> bool \<times> string" where
  "take_char P [] = (False, [])"
| "take_char P (c # r) = (if P c then (True, r) else (False, c # r))"

definition digits_value :: "string \<Rightarrow> int" where
  "digits_value ds = foldl (\<lambda>a c. 10 * a + (int (of_char c) - 48)) 0 ds"

text \<open>
  A well-formed number that is not a plain integer within 64 bits is converted to a
  double, and the double to an integer when it has an integral value. \<open>md\<close> are the
  digits of the mantissa (before and after the point) and \<open>k\<close> is the power of ten they
  are to be multiplied with, so that without its trailing zeros the number is
  \<open>n / 10^j\<close>. Zero and an integral value below \<open>2^53\<close> are exact and become that
  integer (\<open>10.0\<close>, \<open>1e3\<close> and \<open>5.\<close> are stored as 10, 1000 and 5); a value that is
  no integer and has at most 15 significant digits becomes a \<open>REAL\<close>.
\<close>

definition strip_zeros :: "string \<Rightarrow> string" where
  "strip_zeros ds = rev (dropWhile (\<lambda>c. c = CHR ''0'') (rev ds))"

definition real_affinity :: "string \<Rightarrow> bool \<Rightarrow> string \<Rightarrow> int \<Rightarrow> sqlval" where
  "real_affinity t neg md k =
     (let n = digits_value (strip_zeros md);
          j = - k - int (length md - length (strip_zeros md));
          significant = dropWhile (\<lambda>c. c = CHR ''0'') (strip_zeros md)
      in if n = 0 then SqlInteger 0
         else if j \<le> 0 then
           (if - j \<le> 16 \<and> n * 10 ^ nat (- j) < 2 ^ 53
            then SqlInteger (if neg then - (n * 10 ^ nat (- j)) else n * 10 ^ nat (- j))
            else SqlNumeric t)
         else if length significant \<le> 15 \<and> j \<le> 300
         then SqlReal (if neg then - n else n) (nat j)
         else SqlNumeric t)"

definition integer_affinity :: "string \<Rightarrow> sqlval" where
  "integer_affinity t =
     (let z1 = dropWhile isspace t;
          (neg, z2) = take_char (\<lambda>c. c = CHR ''-'') z1;
          (pos, z3) = (if neg then (False, z2) else take_char (\<lambda>c. c = CHR ''+'') z2);
          ds = takeWhile isdigit z3;
          (pt, z4) = take_char (\<lambda>c. c = CHR ''.'') (dropWhile isdigit z3);
          fs = takeWhile isdigit z4;
          (ex, z5) = take_char (\<lambda>c. c = CHR ''e'' \<or> c = CHR ''E'') (dropWhile isdigit z4);
          (eneg, z6) = (if ex then take_char (\<lambda>c. c = CHR ''-'') z5 else (False, z5));
          (eplus, z7) =
            (if ex \<and> \<not> eneg then take_char (\<lambda>c. c = CHR ''+'') z6 else (False, z6));
          es = takeWhile isdigit z7;
          z8 = dropWhile isspace (dropWhile isdigit z7);
          v = (if neg then - digits_value ds else digits_value ds);
          e = (if eneg then - digits_value es else digits_value es)
      in if z8 \<noteq> [] \<or> ds @ fs = [] \<or> (ex \<and> es = []) then SqlText t
         else if \<not> pt \<and> \<not> ex \<and> - (2 ^ 63) \<le> v \<and> v < 2 ^ 63 then SqlInteger v
         else real_affinity t neg (ds @ fs) (e - int (length fs)))"

text \<open>
  A field of a CSV record bound to the \<open>votes\<close> parameter: a missing field is
  \<open>undefined\<close> and is stored as \<open>NULL\<close>.
\<close>

definition integer_column :: "string option \<Rightarrow> sqlval" where
  "integer_column field = (case field of None \<Rightarrow> SqlNull | Some t \<Rightarrow> integer_affinity t)"

subsection \<open>Schema and inserts\<close>

text \<open>The two tables are dropped and created anew at every start.\<close>

definition create_tables :: "store" where
  "create_tables = \<lparr>precincts = [], results = []\<rparr>"

text \<open>
  \<open>pctkey TEXT PRIMARY KEY\<close>: an insert whose key is already in the table fails with
  \<open>SQLITE_CONSTRAINT\<close> and leaves the table as it was (a \<open>NULL\<close> key is never a
  duplicate).
\<close>

definition insert_precinct :: "precinct_row \<Rightarrow> store \<Rightarrow> sql_error + store" where
  "insert_precinct row db =
     (if pctkey row \<noteq> None \<and> pctkey row \<in> set (map pctkey (precincts db))
      then Inl (SqlError ''SQLITE_CONSTRAINT''
                  ''SQLITE_CONSTRAINT: UNIQUE constraint failed: precincts.pctkey'')
      else Inr (db\<lparr>precincts := precincts db @ [row]\<rparr>))"

text \<open>The results table declares no constraint.\<close>

definition insert_result :: "result_row \<Rightarrow> store \<Rightarrow> sql_error + store" where
  "insert_result row db = Inr (db\<lparr>results := results db @ [row]\<rparr>)"

section \<open>Results loader\<close>

text \<open>
  One insert for each record of the CSV, a record being the list of its named fields.
  The party is read from the column \<open>party_simplified\<close>. The callback of the insert
  only logs an error.
\<close>

definition result_row_of :: "(string \<times> string) list \<Rightarrow> result_row" where
  "result_row_of row =
     \<lparr>res_pctkey = map_of row ''pctkey'',
      office = map_of row ''office'',
      candidate = map_of row ''candidate'',
      votes = integer_column (map_of row ''votes''),
      party = map_of row ''party_simplified''\<rparr>"

definition db_run_result :: "store \<Rightarrow> (string \<times> string) list \<Rightarrow> store" where
  "db_run_result db row =
     (case insert_result (result_row_of row) db of Inl err \<Rightarrow> db | Inr db' \<Rightarrow> db')"

text \<open>
  \<open>db.run\<close> is called for each record as it arrives, outside \<open>db.serialize\<close>, so the
  inserts need not run in the order the records have in the file. \<open>order\<close> lists the
  positions of the records in the order their inserts run; \<open>run_order order n\<close> says
  that it names each of the \<open>n\<close> records once. A position beyond the records names no
  insert.
\<close>

definition run_order :: "nat list \<Rightarrow> nat \<Rightarrow> bool" where
  "run_order order n = (sort order = [0..<n])"

definition load_results :: "nat list \<Rightarrow> (string \<times> string) list list \<Rightarrow> store \<Rightarrow> store" where
  "load_results order csv db =
     foldl db_run_result db (map (\<lambda>i. csv ! i) (filter (\<lambda>i. i < length csv) order))"

section \<open>Precincts loader\<close>

text \<open>The row bound by \<open>stmt.run\<close> for the feature at position \<open>index\<close>.\<close>

definition precinct_row_of :: "nat \<Rightarrow> (string \<times> jsval) list \<Rightarrow> string option \<Rightarrow> precinct_row" where
  "precinct_row_of index props geom =
     (let p = js_or (get_prop props ''pctkey'') (Str (''precinct_'' @ show_nat index));
          c = js_or (get_prop props ''county'') (Str ''Unknown'');
          j = js_or (get_prop props ''city'') (Str ''Unknown'');
          d = js_or (js_or (js_or (get_prop props ''us_congress'') (get_prop props ''state_senate''))
                       (get_prop props ''state_house'')) (Str ''Unknown'')
      in \<lparr>pctkey = bind_text p,
          county = bind_text c,
          jurisdiction = bind_text j,
          district = bind_text (Str (js_String d)),
          geometry = geom\<rparr>)"

text \<open>
  The \<open>forEach\<close> over the features: the rows handed to \<open>stmt.run\<close>, in order. Reading a
  property of \<open>null\<close> properties throws; the surrounding \<open>try\<close> catches it, so the
  features from that one on are not loaded.
\<close>

fun stmt_runs :: "nat \<Rightarrow> feature list \<Rightarrow> precinct_row list" where
  "stmt_runs index [] = []"
| "stmt_runs index (feat # rest) =
     (case feat_properties feat of
        None \<Rightarrow> []
      | Some props \<Rightarrow>
          precinct_row_of index props (feat_geometry feat) # stmt_runs (Suc index) rest)"

text \<open>
  The callback of \<open>stmt.run\<close> logs an error unless its code is \<open>SQLITE_CONSTRAINT\<close>:
  \<open>stmt_run_callback key r\<close> is what it writes to the console for the outcome \<open>r\<close> of
  the insert, \<open>key\<close> being the text of the key in the message. Either way the load goes
  on with the table the insert left.
\<close>

definition stmt_run_callback :: "string \<Rightarrow> sql_error + store \<Rightarrow> string list" where
  "stmt_run_callback key r =
     (case r of
        Inl err \<Rightarrow>
          if code err \<noteq> ''SQLITE_CONSTRAINT''
          then [''Error inserting precinct '' @ key @ '': '' @ message err]
          else []
      | Inr db' \<Rightarrow> [])"

definition stmt_run :: "store \<Rightarrow> precinct_row \<Rightarrow> store" where
  "stmt_run db row = (case insert_precinct row db of Inl err \<Rightarrow> db | Inr db' \<Rightarrow> db')"

definition load_precincts :: "feature list \<Rightarrow> store \<Rightarrow> store" where
  "load_precincts features db = foldl stmt_run db (stmt_runs 0 features)"

section \<open>Query service\<close>

text \<open>
  The body of a response. \<open>JSON_parse t\<close> is the value \<open>JSON.parse\<close> returns for the text
  \<open>t\<close>. \<open>JReal n j\<close> is the number \<open>n / 10^j\<close> of a \<open>SqlReal n j\<close>, and \<open>JNumeric t\<close> the
  number that a \<open>SqlNumeric t\<close>, or an integer of \<open>2^53\<close> or more written \<open>t\<close>, reads as.
\<close>

datatype json =
  JNull | JNum int | JReal int nat | JNumeric string | JStr string
  | JArr "json list" | JObj "(string \<times> json) list" | JSON_parse string

datatype response = Response (status: nat) (body: json)

definition res_json :: "json \<Rightarrow> response" where
  "res_json v = Response 200 v"

definition res_500 :: "sql_error \<Rightarrow> response" where
  "res_500 err = Response 500 (JObj [(''error'', JStr (message err))])"

definition text_json :: "sqltext \<Rightarrow> json" where
  "text_json v = (case v of None \<Rightarrow> JNull | Some s \<Rightarrow> JStr s)"

fun sql_json :: "sqlval \<Rightarrow> json" where
  "sql_json SqlNull = JNull"
| "sql_json (SqlInteger n) =
     (if - (2 ^ 53) < n \<and> n < 2 ^ 53 then JNum n else JNumeric (show_int n))"
| "sql_json (SqlReal n j) = JReal n j"
| "sql_json (SqlNumeric t) = JNumeric t"
| "sql_json (SqlText t) = JStr t"

text \<open>
  A query parameter is absent or a string; \<open>given q\<close> is its truthiness. A parameter
  compared with \<open>=\<close> matches a column only when neither is \<open>NULL\<close>.
\<close>

definition given :: "string option \<Rightarrow> bool" where
  "given q = (case q of None \<Rightarrow> False | Some s \<Rightarrow> s \<noteq> [])"

definition sql_eq :: "sqltext \<Rightarrow> sqltext \<Rightarrow> bool" where
  "sql_eq a b = (a \<noteq> None \<and> a = b)"

text \<open>
  The statements the handlers run; each is given to \<open>db.all\<close>, whose callback receives
  an error or the rows. The statements are well formed and their tables exist, so the
  engine answers each with rows: a failure of the database itself (input or output, a
  lock) is outside the model, and the handlers keep their branch for an error as the
  source has it. \<open>DISTINCT ... ORDER BY\<close> on a text column is the sorted list of the
  different values, in byte order; a statement without \<open>ORDER BY\<close> returns the rows in
  the order of the table.
\<close>

definition select_counties :: "store \<Rightarrow> sql_error + string list" where
  "select_counties db = Inr (sort (remdups (List.map_filter county (precincts db))))"

definition select_jurisdictions :: "store \<Rightarrow> sqltext \<Rightarrow> sql_error + string list" where
  "select_jurisdictions db c =
     Inr (sort (remdups (List.map_filter jurisdiction
                           (filter (\<lambda>r. sql_eq (county r) c) (precincts db)))))"

definition select_districts :: "store \<Rightarrow> sqltext \<Rightarrow> sqltext \<Rightarrow> sql_error + string list" where
  "select_districts db c j =
     Inr (sort (remdups (List.map_filter district
                           (filter (\<lambda>r. sql_eq (county r) c \<and> sql_eq (jurisdiction r) j)
                              (precincts db)))))"

definition select_precincts ::
  "store \<Rightarrow> ((precinct_row \<Rightarrow> sqltext) \<times> sqltext) list \<Rightarrow> sql_error + precinct_row list" where
  "select_precincts db conds =
     Inr (filter (\<lambda>r. list_all (\<lambda>(col, v). sql_eq (col r) v) conds) (precincts db))"

definition select_results :: "store \<Rightarrow> sqltext \<Rightarrow> sql_error + result_row list" where
  "select_results db k = Inr (filter (\<lambda>r. sql_eq (res_pctkey r) k) (results db))"



subsection \<open>Handlers\<close>

definition api_filters :: "store \<Rightarrow> response" where
  "api_filters db =
     (case select_counties db of
        Inl err \<Rightarrow> res_500 err
      | Inr counties \<Rightarrow> res_json (JArr (map JStr counties)))"

definition api_jurisdictions :: "store \<Rightarrow> string option \<Rightarrow> response" where
  "api_jurisdictions db county_q =
     (if \<not> given county_q \<or> county_q = Some ''Select County'' then res_json (JArr [])
      else case select_jurisdictions db county_q of
             Inl err \<Rightarrow> res_500 err
           | Inr rows \<Rightarrow> res_json (JArr (map JStr rows)))"

definition api_districts :: "store \<Rightarrow> string option \<Rightarrow> string option \<Rightarrow> response" where
  "api_districts db county_q jurisdiction_q =
     (if \<not> given county_q \<or> \<not> given jurisdiction_q \<or> county_q = Some ''Select County''
         \<or> jurisdiction_q = Some ''Select Jurisdiction''
      then res_json (JArr [])
      else case select_districts db county_q jurisdiction_q of
             Inl err \<Rightarrow> res_500 err
           | Inr rows \<Rightarrow> res_json (JArr (map JStr rows)))"

definition feature_json :: "precinct_row \<Rightarrow> json" where
  "feature_json row =
     JObj [(''type'', JStr ''Feature''),
           (''properties'',
              JObj [(''pctkey'', text_json (pctkey row)),
                    (''county'', text_json (county row)),
                    (''jurisdiction'', text_json (jurisdiction row)),
                    (''district'', text_json (district row))]),
           (''geometry'',
              JSON_parse (case geometry row of None \<Rightarrow> ''null'' | Some t \<Rightarrow> t))]"

definition api_precincts ::
  "store \<Rightarrow> string option \<Rightarrow> string option \<Rightarrow> string option \<Rightarrow> response" where
  "api_precincts db county_q jurisdiction_q district_q =
     (let params =
            (if given county_q \<and> county_q \<noteq> Some ''Select County''
             then [(county, county_q)] else [])
            @ (if given jurisdiction_q \<and> jurisdiction_q \<noteq> Some ''Select Jurisdiction''
               then [(jurisdiction, jurisdiction_q)] else [])
            @ (if given district_q \<and> district_q \<noteq> Some ''Select District''
               then [(district, district_q)] else [])
      in case select_precincts db params of
           Inl err \<Rightarrow> res_500 err
         | Inr rows \<Rightarrow> res_json (JArr (map feature_json rows)))"

definition result_json :: "result_row \<Rightarrow> json" where
  "result_json row =
     JObj [(''pctkey'', text_json (res_pctkey row)),
           (''office'', text_json (office row)),
           (''candidate'', text_json (candidate row)),
           (''votes'', sql_json (votes row)),
           (''party'', text_json (party row))]"

definition api_results :: "store \<Rightarrow> string option \<Rightarrow> response" where
  "api_results db pctkey_q =
     (case select_results db pctkey_q of
        Inl err \<Rightarrow> res_500 err
      | Inr rows \<Rightarrow> res_json (JArr (map result_json rows)))"



section \<open>JSON texts\<close>



text \<open>
  \<open>QuoteJSONString\<close>: the quotation mark, the reverse solidus and the control characters
  are escaped, every other byte is copied.
\<close>

definition quote_char :: "char \<Rightarrow> string" where
  "quote_char c =
     (if c = CHR 0x22 then [CHR 0x5C, CHR 0x22]
      else if c = CHR 0x5C then [CHR 0x5C, CHR 0x5C]
      else if c = CHR 0x08 then [CHR 0x5C, CHR ''b'']
      else if c = CHR 0x0C then [CHR 0x5C, CHR ''f'']
      else if c = CHR 0x0A then [CHR 0x5C, CHR ''n'']
      else if c = CHR 0x0D then [CHR 0x5C, CHR ''r'']
      else if c = CHR 0x09 then [CHR 0x5C, CHR ''t'']
      else if (of_char c :: nat) < 32
      then [CHR 0x5C, CHR ''u'', CHR ''0'', CHR ''0'',
            ''0123456789abcdef'' ! (of_char c div 16), ''0123456789abcdef'' ! (of_char c mod 16)]
      else [c])"

definition quote :: "string \<Rightarrow> string" where
  "quote s = CHR 0x22 # concat (map quote_char s) @ [CHR 0x22]"




text \<open>
  \<open>JSON.parse\<close>. White space is the space, the tab, the line feed and the carriage
  return.
\<close>

definition is_ws :: "char \<Rightarrow> bool" where
  "is_ws c = (c \<in> set [CHR '' '', CHR 0x09, CHR 0x0A, CHR 0x0D])"


text \<open>
  The escape \<open>\uXXXX\<close> of a string: four hexadecimal digits give a code unit, a high
  surrogate followed by the escape of a low surrogate gives one code point with it, and
  the code point is written in UTF-8, a surrogate that stands alone as the three bytes
  of its code unit. \<open>unicode_escape\<close> returns the bytes and the number of characters it
  has read after the \<open>u\<close>.
\<close>

definition hex_value :: "char \<Rightarrow> nat option" where
  "hex_value c =
     (let n = of_char c :: nat in
      if 48 \<le> n \<and> n \<le> 57 then Some (n - 48)
      else if 97 \<le> n \<and> n \<le> 102 then Some (n - 87)
      else if 65 \<le> n \<and> n \<le> 70 then Some (n - 55)
      else None)"

definition hex4 :: "string \<Rightarrow> nat option" where
  "hex4 s =
     (case map hex_value (take 4 s) of
        [Some a, Some b, Some c, Some d] \<Rightarrow> Some (((a * 16 + b) * 16 + c) * 16 + d)
      | _ \<Rightarrow> None)"

definition utf8 :: "nat \<Rightarrow> string" where
  "utf8 u =
     (if u < 0x80 then [char_of u]
      else if u < 0x800 then [char_of (0xC0 + u div 64), char_of (0x80 + u mod 64)]
      else if u < 0x10000
      then [char_of (0xE0 + u div 4096), char_of (0x80 + u div 64 mod 64), char_of (0x80 + u mod 64)]
      else [char_of (0xF0 + u div 262144), char_of (0x80 + u div 4096 mod 64),
            char_of (0x80 + u div 64 mod 64), char_of (0x80 + u mod 64)])"

definition unicode_escape :: "string \<Rightarrow> (string \<times> nat) option" where
  "unicode_escape s =
     (case hex4 s of
        None \<Rightarrow> None
      | Some u \<Rightarrow>
          if 0xD800 \<le> u \<and> u < 0xDC00 \<and> take 2 (drop 4 s) = [CHR 0x5C, CHR ''u'']
          then (case hex4 (drop 6 s) of
                  None \<Rightarrow> Some (utf8 u, 4)
                | Some l \<Rightarrow>
                    if 0xDC00 \<le> l \<and> l < 0xE000
                    then Some (utf8 (0x10000 + (u - 0xD800) * 0x400 + (l - 0xDC00)), 10)
                    else Some (utf8 u, 4))
          else Some (utf8 u, 4))"

definition simple_escape :: "char \<Rightarrow> char option" where
  "simple_escape e =
     (if e = CHR 0x22 then Some (CHR 0x22)
      else if e = CHR 0x5C then Some (CHR 0x5C)
      else if e = CHR ''/'' then Some (CHR ''/'')
      else if e = CHR ''b'' then Some (CHR 0x08)
      else if e = CHR ''f'' then Some (CHR 0x0C)
      else if e = CHR ''n'' then Some (CHR 0x0A)
      else if e = CHR ''r'' then Some (CHR 0x0D)
      else if e = CHR ''t'' then Some (CHR 0x09)
      else None)"

text \<open>
  The characters of a string after its opening quotation mark, up to the closing one: the
  string and the text after it. A control character that is not escaped is an error.
\<close>

function parse_string :: "string \<Rightarrow> (string \<times> string) option" where
  "parse_string [] = None"
| "parse_string (c # r) =
     (if c = CHR 0x22 then Some ([], r)
      else if c = CHR 0x5C then
        (case r of
           [] \<Rightarrow> None
         | e # r' \<Rightarrow>
             if e = CHR ''u'' then
               (case unicode_escape r' of
                  None \<Rightarrow> None
                | Some (bytes, m) \<Rightarrow>
                    (case parse_string (drop m r') of
                       None \<Rightarrow> None
                     | Some (s, z) \<Rightarrow> Some (bytes @ s, z)))
             else
               (case simple_escape e of
                  None \<Rightarrow> None
                | Some b \<Rightarrow>
                    (case parse_string r' of None \<Rightarrow> None | Some (s, z) \<Rightarrow> Some (b # s, z))))
      else if (of_char c :: nat) < 32 then None
      else (case parse_string r of None \<Rightarrow> None | Some (s, z) \<Rightarrow> Some (c # s, z)))"
  by pat_completeness auto
termination
  by (relation "measure length") auto









subsection \<open>The geometry of a feature\<close>





section \<open>Vocabulary of the properties\<close>

text \<open>
  The wording "the first value that counts, else the default", for a list of candidate
  values in priority order. It is used to state what a row holds, not by the loader.
\<close>

definition first_truthy :: "jsval list \<Rightarrow> jsval \<Rightarrow> jsval" where
  "first_truthy vs dflt = (case filter truthy vs of [] \<Rightarrow> dflt | v # _ \<Rightarrow> v)"

text \<open>
  A small data set: four features, the last repeating the key of the first, the second
  without a key; two result records with a \<open>party\<close> column and no
  \<open>party_simplified\<close> column.
\<close>

definition example_features :: "feature list" where
  \<open>example_features =
     [\<lparr>feat_properties = Some [(''pctkey'', Str ''P1''), (''county'', Str ''Dallas''),
                                 (''city'', Str ''Dallas''), (''us_congress'', Num 9)],
       feat_geometry = Some ''{"type":"Point","coordinates":[1,2]}''\<rparr>,
      \<lparr>feat_properties = Some [(''county'', Str ''Tarrant'')],
       feat_geometry = Some ''{"type":"Point","coordinates":[3,4]}''\<rparr>,
      \<lparr>feat_properties = Some [(''pctkey'', Str ''P3''), (''county'', Str ''Dallas''),
                                 (''city'', Str ''Dallas''), (''us_congress'', Num 10)],
       feat_geometry = Some ''{"type":"Point","coordinates":[5,6]}''\<rparr>,
      \<lparr>feat_properties = Some [(''pctkey'', Str ''P1''), (''county'', Str ''Collin''),
                                 (''city'', Str ''Plano'')],
       feat_geometry = Some ''{"type":"Point","coordinates":[7,8]}''\<rparr>]\<close>

definition example_csv :: "(string \<times> string) list list" where
  "example_csv =
     [[(''pctkey'', ''P1''), (''office'', ''Mayor''), (''candidate'', ''A''),
       (''votes'', ''10''), (''party'', ''X'')],
      [(''pctkey'', ''P1''), (''office'', ''Mayor''), (''candidate'', ''B''),
       (''votes'', ''20''), (''party'', ''Y'')]]"

text \<open>
  Records whose vote count is written in several ways, or missing.
\<close>

definition example_votes_csv :: "(string \<times> string) list list" where
  "example_votes_csv =
     [[(''pctkey'', ''P1''), (''candidate'', ''A''), (''votes'', ''010'')],
      [(''pctkey'', ''P1''), (''candidate'', ''B'')],
      [(''pctkey'', ''P1''), (''candidate'', ''C''), (''votes'', ''n/a'')],
      [(''pctkey'', ''P1''), (''candidate'', ''D''), (''votes'', ''10.0'')],
      [(''pctkey'', ''P1''), (''candidate'', ''E''), (''votes'', ''1e3'')],
      [(''pctkey'', ''P1''), (''candidate'', ''F''), (''votes'', ''12.50'')]]"

definition example_store :: store where
  "example_store =
     load_precincts example_features (load_results [0, 1] example_csv create_tables)"




text \<open>
  A text that can follow a value inside a JSON text: nothing, or a comma, a closing
  bracket or a closing brace and the rest. \<open>member_text\<close> is the text \<open>stringify\<close> writes
  for a member of an object.
\<close>

definition delimited :: "string \<Rightarrow> bool" where
  "delimited r =
     (case r of [] \<Rightarrow> True | c # _ \<Rightarrow> c = CHR '','' \<or> c = CHR '']'' \<or> c = CHR ''}'')"




section \<open>Properties\<close>

subsection \<open>The example store\<close>

lemma example_precincts:
  \<open>precincts example_store =
     [\<lparr>pctkey = Some ''P1'', county = Some ''Dallas'', jurisdiction = Some ''Dallas'',
       district = Some ''9'', geometry = Some ''{"type":"Point","coordinates":[1,2]}''\<rparr>,
      \<lparr>pctkey = Some ''precinct_1'', county = Some ''Tarrant'', jurisdiction = Some ''Unknown'',
       district = Some ''Unknown'', geometry = Some ''{"type":"Point","coordinates":[3,4]}''\<rparr>,
      \<lparr>pctkey = Some ''P3'', county = Some ''Dallas'', jurisdiction = Some ''Dallas'',
       district = Some ''10'', geometry = Some ''{"type":"Point","coordinates":[5,6]}''\<rparr>]\<close>
  by code_simp

lemma example_results:
  "results example_store =
     [\<lparr>res_pctkey = Some ''P1'', office = Some ''Mayor'', candidate = Some ''A'',
       votes = SqlInteger 10, party = None\<rparr>,
      \<lparr>res_pctkey = Some ''P1'', office = Some ''Mayor'', candidate = Some ''B'',
       votes = SqlInteger 20, party = None\<rparr>]"
  by code_simp

subsection \<open>What the loaders leave in the store\<close>

lemma show_nat_not_empty: "show_nat n \<noteq> []"
  by (subst show_nat.simps) simp

lemma show_int_not_empty: "show_int i \<noteq> []"
  by (simp add: show_int_def show_nat_not_empty)

lemma bind_text_truthy: "truthy v \<Longrightarrow> \<exists>s. bind_text v = Some s \<and> s \<noteq> []"
  by (cases v) (simp_all add: show_int_not_empty)

lemma truthy_js_or: "truthy b \<Longrightarrow> truthy (js_or a b)"
  by (simp add: js_or_def)

lemma results_db_run_result: "results (db_run_result db row) = results db @ [result_row_of row]"
  by (simp add: db_run_result_def insert_result_def)

lemma results_foldl_db_run_result:
  "results (foldl db_run_result db rows) = results db @ map result_row_of rows"
  by (induction rows arbitrary: db) (simp_all add: results_db_run_result)

lemma results_load_results:
  "results (load_results order csv db) =
     results db @ map (\<lambda>i. result_row_of (csv ! i)) (filter (\<lambda>i. i < length csv) order)"
  by (simp add: load_results_def results_foldl_db_run_result comp_def)

lemma precincts_load_results: "precincts (load_results order csv db) = precincts db"
proof -
  have "precincts (foldl db_run_result db rows) = precincts db" for rows
    by (induction rows arbitrary: db) (simp_all add: db_run_result_def insert_result_def)
  then show ?thesis by (simp add: load_results_def)
qed

lemma run_order_positions:
  assumes "run_order order n"
  shows "set order = {0..<n}" and "length order = n"
proof -
  from assms have s: "sort order = [0..<n]" by (simp add: run_order_def)
  have "set order = set (sort order)" by simp
  then show "set order = {0..<n}" by (simp only: s set_upt)
  have "length order = length (sort order)" by simp
  then show "length order = n" by (simp only: s length_upt)
qed

lemma results_load_results_run_order:
  assumes "run_order order (length csv)"
  shows "results (load_results order csv create_tables) = map (\<lambda>i. result_row_of (csv ! i)) order"
proof -
  from run_order_positions(1) [OF assms] have "filter (\<lambda>i. i < length csv) order = order"
    by (auto simp: filter_id_conv)
  then show ?thesis by (simp add: results_load_results create_tables_def)
qed

lemma precincts_stmt_run:
  "precincts (stmt_run db row) =
     (if pctkey row \<noteq> None \<and> pctkey row \<in> set (map pctkey (precincts db))
      then precincts db else precincts db @ [row])"
  by (simp add: stmt_run_def insert_precinct_def)

lemma foldl_stmt_run_subset:
  "set (precincts (foldl stmt_run db rows)) \<subseteq> set (precincts db) \<union> set rows"
proof (induction rows arbitrary: db)
  case Nil
  show ?case by simp
next
  case (Cons row rows)
  have "set (precincts (stmt_run db row)) \<subseteq> set (precincts db) \<union> {row}"
    by (auto simp: precincts_stmt_run)
  with Cons.IH [of "stmt_run db row"] show ?case by auto
qed

lemma foldl_stmt_run_distinct:
  "distinct (map pctkey (precincts db)) \<Longrightarrow> list_all (\<lambda>r. pctkey r \<noteq> None) rows \<Longrightarrow>
   distinct (map pctkey (precincts (foldl stmt_run db rows)))"
proof (induction rows arbitrary: db)
  case Nil
  then show ?case by simp
next
  case (Cons row rows)
  from Cons.prems have "distinct (map pctkey (precincts (stmt_run db row)))"
    by (auto simp: precincts_stmt_run)
  with Cons.IH [of "stmt_run db row"] Cons.prems show ?case by simp
qed

lemma precinct_row_of_key: "\<exists>s. pctkey (precinct_row_of i props g) = Some s \<and> s \<noteq> []"
  by (simp add: precinct_row_of_def Let_def bind_text_truthy truthy_js_or)


lemma precinct_row_of_district: "\<exists>s. district (precinct_row_of i props g) = Some s"
  by (simp add: precinct_row_of_def Let_def)

lemma stmt_runs_rows:
  "row \<in> set (stmt_runs i fs) \<Longrightarrow> \<exists>k props g. row = precinct_row_of k props g"
  by (induction fs arbitrary: i) (auto split: option.splits)

lemma loaded_rows:
  "row \<in> set (precincts (load_precincts fs create_tables)) \<Longrightarrow>
   \<exists>k props g. row = precinct_row_of k props g"
  using foldl_stmt_run_subset [of create_tables "stmt_runs 0 fs"] stmt_runs_rows [of row 0 fs]
  by (auto simp: load_precincts_def create_tables_def)

lemma keys_distinct: "distinct (map pctkey (precincts (load_precincts fs create_tables)))"
  unfolding load_precincts_def
proof (rule foldl_stmt_run_distinct)
  show "distinct (map pctkey (precincts create_tables))" by (simp add: create_tables_def)
  show "list_all (\<lambda>r. pctkey r \<noteq> None) (stmt_runs 0 fs)"
    using stmt_runs_rows precinct_row_of_key by (fastforce simp: list_all_iff)
qed

subsection \<open>Key uniqueness\<close>

text \<open>
  Claim C1 says that the store does not enforce the uniqueness of the precinct key, so
  that two features with equal keys leave two rows with the same key.

  The table declares \<open>pctkey TEXT PRIMARY KEY\<close>. An insert whose key is already in the
  table fails with \<open>SQLITE_CONSTRAINT\<close>, the callback of the loader passes that error
  over in silence and the table stays as it was; after a load from fresh tables no two
  rows have the same key.
\<close>

theorem duplicate_key_rejected:
  "(pctkey row \<noteq> None \<and> pctkey row \<in> set (map pctkey (precincts db))
      \<longrightarrow> (\<exists>err. insert_precinct row db = Inl err \<and> code err = ''SQLITE_CONSTRAINT'')
          \<and> stmt_run_callback key (insert_precinct row db) = []
          \<and> stmt_run db row = db)
   \<and> distinct (map pctkey (precincts (load_precincts features create_tables)))"
  by (simp add: keys_distinct insert_precinct_def stmt_run_def stmt_run_callback_def)

theorem duplicate_key_rejected_witness:
  "pctkey \<lparr>pctkey = Some ''P1'', county = Some ''Collin'', jurisdiction = Some ''Plano'',
            district = Some ''Unknown'', geometry = None\<rparr> \<noteq> None
   \<and> Some ''P1'' \<in> set (map pctkey (precincts example_store))
   \<and> stmt_run_callback ''P1''
         (insert_precinct
            \<lparr>pctkey = Some ''P1'', county = Some ''Collin'', jurisdiction = Some ''Plano'',
             district = Some ''Unknown'', geometry = None\<rparr> example_store) = []
   \<and> stmt_run example_store
         \<lparr>pctkey = Some ''P1'', county = Some ''Collin'', jurisdiction = Some ''Plano'',
          district = Some ''Unknown'', geometry = None\<rparr> = example_store
   \<and> distinct (map pctkey (precincts (load_precincts example_features create_tables)))"
  using duplicate_key_rejected
    [of "\<lparr>pctkey = Some ''P1'', county = Some ''Collin'', jurisdiction = Some ''Plano'',
          district = Some ''Unknown'', geometry = None\<rparr>" example_store "''P1''"
        example_features]
  by (simp add: example_precincts)

text \<open>
  Two features with the key \<open>P1\<close>: both are handed to the insert, one row is stored.
\<close>

theorem duplicate_key_counterexample:
  "map pctkey (stmt_runs 0
      [\<lparr>feat_properties = Some [(''pctkey'', Str ''P1''), (''county'', Str ''Dallas'')],
        feat_geometry = None\<rparr>,
       \<lparr>feat_properties = Some [(''pctkey'', Str ''P1''), (''county'', Str ''Collin'')],
        feat_geometry = None\<rparr>]) = [Some ''P1'', Some ''P1'']
   \<and> map county (precincts (load_precincts
      [\<lparr>feat_properties = Some [(''pctkey'', Str ''P1''), (''county'', Str ''Dallas'')],
        feat_geometry = None\<rparr>,
       \<lparr>feat_properties = Some [(''pctkey'', Str ''P1''), (''county'', Str ''Collin'')],
        feat_geometry = None\<rparr>] create_tables)) = [Some ''Dallas'']"
  by code_simp

subsection \<open>The row of a feature\<close>

lemma stmt_runs_nth:
  "i < length fs \<Longrightarrow> list_all (\<lambda>f. feat_properties f \<noteq> None) (take (Suc i) fs) \<Longrightarrow>
   feat_properties (fs ! i) = Some props \<Longrightarrow>
   stmt_runs k fs ! i = precinct_row_of (k + i) props (feat_geometry (fs ! i))"
proof (induction fs arbitrary: i k)
  case Nil
  then show ?case by simp
next
  case (Cons f fs)
  show ?case
  proof (cases i)
    case 0
    with Cons.prems show ?thesis by (auto split: option.splits)
  next
    case (Suc m)
    with Cons.prems Cons.IH [of m "Suc k"] show ?thesis by (auto split: option.splits)
  qed
qed

lemma precinct_row_of_first_truthy:
  "precinct_row_of i props g =
     \<lparr>pctkey = bind_text (first_truthy [get_prop props ''pctkey'']
                           (Str (''precinct_'' @ show_nat i))),
      county = bind_text (first_truthy [get_prop props ''county''] (Str ''Unknown'')),
      jurisdiction = bind_text (first_truthy [get_prop props ''city''] (Str ''Unknown'')),
      district = Some (js_String (first_truthy
                   [get_prop props ''us_congress'', get_prop props ''state_senate'',
                    get_prop props ''state_house''] (Str ''Unknown''))),
      geometry = g\<rparr>"
  by (simp add: precinct_row_of_def first_truthy_def js_or_def Let_def)

text \<open>
  Claim C2 says that every feature is mapped to a row whose key is \<open>properties.pctkey\<close>
  if present, else \<open>precinct_<index>\<close> with the zero-based position of the feature,
  whose county is \<open>properties.county\<close> else \<open>Unknown\<close>, whose jurisdiction is
  \<open>properties.city\<close> else \<open>Unknown\<close>, and whose district is the first present value
  among \<open>us_congress\<close>, \<open>state_senate\<close>, \<open>state_house\<close>, in that order, else
  \<open>Unknown\<close>.

  The loader chooses with \<open>||\<close>, so a value counts when it is truthy, not when it is
  present: a property that is \<open>null\<close>, \<open>false\<close>, 0 or the empty string is passed
  over like a missing one. The district is the text \<open>String\<close> gives for the chosen
  value. This holds for the feature at position \<open>i\<close> when it and the features before it
  have a properties object.
\<close>

theorem feature_row_mapping:
  assumes "i < length fs"
    and "list_all (\<lambda>f. feat_properties f \<noteq> None) (take (Suc i) fs)"
    and "feat_properties (fs ! i) = Some props"
  shows "stmt_runs 0 fs ! i =
     \<lparr>pctkey = bind_text (first_truthy [get_prop props ''pctkey'']
                           (Str (''precinct_'' @ show_nat i))),
      county = bind_text (first_truthy [get_prop props ''county''] (Str ''Unknown'')),
      jurisdiction = bind_text (first_truthy [get_prop props ''city''] (Str ''Unknown'')),
      district = Some (js_String (first_truthy
                   [get_prop props ''us_congress'', get_prop props ''state_senate'',
                    get_prop props ''state_house''] (Str ''Unknown''))),
      geometry = feat_geometry (fs ! i)\<rparr>"
  using stmt_runs_nth [OF assms, of 0] by (simp add: precinct_row_of_first_truthy)

theorem feature_row_mapping_witness:
  \<open>(1::nat) < length example_features
   \<and> list_all (\<lambda>f. feat_properties f \<noteq> None) (take (Suc 1) example_features)
   \<and> feat_properties (example_features ! 1) = Some [(''county'', Str ''Tarrant'')]
   \<and> stmt_runs 0 example_features ! 1 =
       \<lparr>pctkey = Some ''precinct_1'', county = Some ''Tarrant'',
        jurisdiction = Some ''Unknown'', district = Some ''Unknown'',
        geometry = Some ''{"type":"Point","coordinates":[3,4]}''\<rparr>\<close>
proof -
  have h1: "(1::nat) < length example_features"
    by (simp add: example_features_def)
  have h2: "list_all (\<lambda>f. feat_properties f \<noteq> None) (take (Suc 1) example_features)"
    by (simp add: example_features_def)
  have h3: "feat_properties (example_features ! 1) = Some [(''county'', Str ''Tarrant'')]"
    by (simp add: example_features_def)
  have g: \<open>feat_geometry (example_features ! 1) = Some ''{"type":"Point","coordinates":[3,4]}''\<close>
    by (simp add: example_features_def)
  show ?thesis
    using feature_row_mapping [OF h1 h2 h3] h1 h2 h3 g
    by (simp add: first_truthy_def get_prop_def show_nat.simps)
qed

text \<open>
  A feature whose \<open>pctkey\<close> is present and empty and whose \<open>us_congress\<close> is present
  and 0: the key is synthesized and the district comes from \<open>state_senate\<close>.
\<close>

theorem present_falsy_property_counterexample:
  "map_of [(''pctkey'', Str ''''), (''county'', Str ''Dallas''), (''us_congress'', Num 0),
           (''state_senate'', Num 16)] ''pctkey'' = Some (Str '''')
   \<and> map_of [(''pctkey'', Str ''''), (''county'', Str ''Dallas''), (''us_congress'', Num 0),
             (''state_senate'', Num 16)] ''us_congress'' = Some (Num 0)
   \<and> stmt_runs 0
        [\<lparr>feat_properties = Some [(''pctkey'', Str ''''), (''county'', Str ''Dallas''),
                                    (''us_congress'', Num 0), (''state_senate'', Num 16)],
          feat_geometry = None\<rparr>] =
       [\<lparr>pctkey = Some ''precinct_0'', county = Some ''Dallas'',
         jurisdiction = Some ''Unknown'', district = Some ''16'', geometry = None\<rparr>]"
  by code_simp

subsection \<open>The vote count\<close>

lemma isdigit_code:
  "isdigit c \<Longrightarrow> 48 \<le> int (of_char c) \<and> \<not> isspace c \<and> c \<noteq> CHR ''-'' \<and> c \<noteq> CHR ''+''"
  by (auto simp: isdigit_def isspace_def)

lemma foldl_digits_nonneg:
  "list_all isdigit ds \<Longrightarrow> 0 \<le> a \<Longrightarrow> 0 \<le> foldl (\<lambda>a c. 10 * a + (int (of_char c) - 48)) a ds"
proof (induction ds arbitrary: a)
  case Nil
  then show ?case by simp
next
  case (Cons c ds)
  from Cons.prems have "0 \<le> 10 * a + (int (of_char c) - 48)"
    using isdigit_code [of c] by simp
  with Cons show ?case by simp
qed

lemma digits_value_nonneg: "list_all isdigit ds \<Longrightarrow> 0 \<le> digits_value ds"
  by (simp add: digits_value_def foldl_digits_nonneg)

lemma integer_affinity_digits:
  assumes "ds \<noteq> []" and "list_all isdigit ds" and "digits_value ds < 2 ^ 63"
  shows "integer_affinity ds = SqlInteger (digits_value ds)"
proof -
  from assms(1) obtain c r where ds: "ds = c # r" by (cases ds) auto
  with assms(2) have c: "isdigit c" by simp
  have z1: "dropWhile isspace ds = ds"
    using c isdigit_code [of c] by (simp add: ds)
  have z2: "take_char (\<lambda>c. c = CHR ''-'') ds = (False, ds)"
    using c isdigit_code [of c] by (simp add: ds)
  have z3: "take_char (\<lambda>c. c = CHR ''+'') ds = (False, ds)"
    using c isdigit_code [of c] by (simp add: ds)
  have tk: "takeWhile isdigit ds = ds" and dr: "dropWhile isdigit ds = []"
    using assms(2) by (simp_all add: list_all_iff)
  from digits_value_nonneg [OF assms(2)] have "- (2 ^ 63) \<le> digits_value ds"
    by (rule order_trans [rotated]) simp
  with assms(1,3) show ?thesis
    by (simp add: integer_affinity_def z1 z2 z3 tk dr)
qed

lemma set_snd_take_char: "set (snd (take_char P z)) \<subseteq> set z"
  by (cases z) auto

lemma takeWhile_none: "\<not> list_ex P z \<Longrightarrow> takeWhile P z = []"
  by (cases z) (auto simp: list_ex_iff)

lemma no_digit_sub: "\<not> list_ex isdigit z \<Longrightarrow> set z' \<subseteq> set z \<Longrightarrow> \<not> list_ex isdigit z'"
  by (auto simp: list_ex_iff)

lemma integer_affinity_no_digit:
  assumes "\<not> list_ex isdigit t"
  shows "integer_affinity t = SqlText t"
proof -
  define z1 where "z1 = dropWhile isspace t"
  define z2 where "z2 = snd (take_char (\<lambda>c. c = CHR ''-'') z1)"
  define z3 where "z3 = snd (if fst (take_char (\<lambda>c. c = CHR ''-'') z1) then (False, z2)
                              else take_char (\<lambda>c. c = CHR ''+'') z2)"
  define z4 where "z4 = snd (take_char (\<lambda>c. c = CHR ''.'') (dropWhile isdigit z3))"
  have s1: "set z1 \<subseteq> set t" unfolding z1_def by (auto dest: set_dropWhileD)
  have s2: "set z2 \<subseteq> set z1" unfolding z2_def by (rule set_snd_take_char)
  have s3: "set z3 \<subseteq> set z2" unfolding z3_def using set_snd_take_char by auto
  have s4: "set z4 \<subseteq> set z3" unfolding z4_def
    using set_snd_take_char [of "\<lambda>c. c = CHR ''.''" "dropWhile isdigit z3"]
    by (auto dest: set_dropWhileD)
  have "\<not> list_ex isdigit z3"
    using s1 s2 s3 by (intro no_digit_sub [OF assms]) blast
  then have d3: "takeWhile isdigit z3 = []" by (rule takeWhile_none)
  have "\<not> list_ex isdigit z4"
    using s1 s2 s3 s4 by (intro no_digit_sub [OF assms]) blast
  then have d4: "takeWhile isdigit z4 = []" by (rule takeWhile_none)
  show ?thesis
    unfolding integer_affinity_def Let_def case_prod_beta
    by (rule if_P, rule disjI2, rule disjI1)
       (simp only: d3 [unfolded z3_def z2_def z1_def] d4 [unfolded z4_def z3_def z2_def z1_def]
          append_Nil)
qed

text \<open>
  Claim C4 says that the results loader performs no type coercion on the vote count: the
  value is stored exactly as the source row provides it.

  The loader hands the field over as it is, but the column is declared \<open>votes INTEGER\<close>
  and converts what it is given. For the record whose insert runs at position \<open>k\<close>, the
  row at position \<open>k\<close> of the table holds \<open>NULL\<close> when the record has no \<open>votes\<close>
  field, the integer when the field is made of decimal digits, and the same text when the
  field has no digit in it.
\<close>

theorem votes_converted_by_integer_column:
  assumes "run_order order (length csv)" and "k < length csv"
  shows "(map_of (csv ! (order ! k)) ''votes'' = None
            \<longrightarrow> votes (results (load_results order csv create_tables) ! k) = SqlNull)
       \<and> (map_of (csv ! (order ! k)) ''votes'' = Some ds
            \<and> ds \<noteq> [] \<and> list_all isdigit ds \<and> digits_value ds < 2 ^ 63
            \<longrightarrow> votes (results (load_results order csv create_tables) ! k) =
                SqlInteger (digits_value ds))
       \<and> (map_of (csv ! (order ! k)) ''votes'' = Some t \<and> \<not> list_ex isdigit t
            \<longrightarrow> votes (results (load_results order csv create_tables) ! k) = SqlText t)"
proof -
  from run_order_positions(2) [OF assms(1)] assms(2) have "k < length order" by simp
  then have "results (load_results order csv create_tables) ! k = result_row_of (csv ! (order ! k))"
    by (simp add: results_load_results_run_order [OF assms(1)])
  then show ?thesis
    by (simp add: result_row_of_def integer_column_def integer_affinity_digits
        integer_affinity_no_digit)
qed

theorem votes_converted_by_integer_column_witness:
  "run_order [3, 0, 1, 2, 5, 4] (length example_votes_csv)
   \<and> map_of (example_votes_csv ! ([3, 0, 1, 2, 5, 4] ! 1)) ''votes'' = Some ''010''
   \<and> ''010'' \<noteq> [] \<and> list_all isdigit ''010'' \<and> digits_value ''010'' < 2 ^ 63
   \<and> votes (results (load_results [3, 0, 1, 2, 5, 4] example_votes_csv create_tables) ! 1) =
       SqlInteger 10
   \<and> map_of (example_votes_csv ! ([3, 0, 1, 2, 5, 4] ! 2)) ''votes'' = None
   \<and> votes (results (load_results [3, 0, 1, 2, 5, 4] example_votes_csv create_tables) ! 2) =
       SqlNull
   \<and> map_of (example_votes_csv ! ([3, 0, 1, 2, 5, 4] ! 3)) ''votes'' = Some ''n/a''
   \<and> \<not> list_ex isdigit ''n/a''
   \<and> votes (results (load_results [3, 0, 1, 2, 5, 4] example_votes_csv create_tables) ! 3) =
       SqlText ''n/a''
   \<and> map votes (results (load_results [3, 0, 1, 2, 5, 4] example_votes_csv create_tables)) =
       [SqlInteger 10, SqlInteger 10, SqlNull, SqlText ''n/a'', SqlReal 125 1, SqlInteger 1000]"
proof -
  have r: "run_order [3, 0, 1, 2, 5, 4] (length example_votes_csv)"
    by code_simp
  have k1: "(1::nat) < length example_votes_csv" and k2: "(2::nat) < length example_votes_csv"
    and k3: "(3::nat) < length example_votes_csv"
    by (simp_all add: example_votes_csv_def)
  have f1: "map_of (example_votes_csv ! ([3, 0, 1, 2, 5, 4] ! 1)) ''votes'' = Some ''010''"
    and f2: "map_of (example_votes_csv ! ([3, 0, 1, 2, 5, 4] ! 2)) ''votes'' = None"
    and f3: "map_of (example_votes_csv ! ([3, 0, 1, 2, 5, 4] ! 3)) ''votes'' = Some ''n/a''"
    by (simp_all add: example_votes_csv_def)
  have d: "''010'' \<noteq> [] \<and> list_all isdigit ''010'' \<and> digits_value ''010'' < 2 ^ 63"
    and v: "digits_value ''010'' = 10"
    and n: "\<not> list_ex isdigit ''n/a''"
    by code_simp+
  have e: "map votes (results (load_results [3, 0, 1, 2, 5, 4] example_votes_csv create_tables)) =
       [SqlInteger 10, SqlInteger 10, SqlNull, SqlText ''n/a'', SqlReal 125 1, SqlInteger 1000]"
    by code_simp
  from votes_converted_by_integer_column [OF r k1, of "''010''" "''n/a''"] f1 d v
  have a1: "votes (results (load_results [3, 0, 1, 2, 5, 4] example_votes_csv create_tables) ! 1) =
       SqlInteger 10"
    by simp
  from votes_converted_by_integer_column [OF r k2, of "''010''" "''n/a''"] f2
  have a2: "votes (results (load_results [3, 0, 1, 2, 5, 4] example_votes_csv create_tables) ! 2) =
       SqlNull"
    by simp
  from votes_converted_by_integer_column [OF r k3, of "''010''" "''n/a''"] f3 n
  have a3: "votes (results (load_results [3, 0, 1, 2, 5, 4] example_votes_csv create_tables) ! 3) =
       SqlText ''n/a''"
    by simp
  from r f1 f2 f3 d n e a1 a2 a3 show ?thesis by blast
qed

text \<open>
  The fields \<open>10\<close>, \<open>010\<close>, \<open>10.0\<close> and \<open>1e1\<close> are all stored as the integer 10, none
  as its text.
\<close>

theorem votes_text_converted_counterexample:
  "map votes (results (load_results [0, 1, 2, 3]
      [[(''pctkey'', ''P1''), (''office'', ''Mayor''), (''candidate'', ''A''), (''votes'', ''10'')],
       [(''pctkey'', ''P2''), (''office'', ''Mayor''), (''candidate'', ''A''), (''votes'', ''010'')],
       [(''pctkey'', ''P3''), (''office'', ''Mayor''), (''candidate'', ''A''), (''votes'', ''10.0'')],
       [(''pctkey'', ''P4''), (''office'', ''Mayor''), (''candidate'', ''A''), (''votes'', ''1e1'')]]
      create_tables)) = [SqlInteger 10, SqlInteger 10, SqlInteger 10, SqlInteger 10]
   \<and> SqlInteger 10 \<noteq> SqlText ''10'' \<and> SqlInteger 10 \<noteq> SqlText ''010''
   \<and> SqlInteger 10 \<noteq> SqlText ''10.0'' \<and> SqlInteger 10 \<noteq> SqlText ''1e1''"
  by code_simp

subsection \<open>Jurisdictions of a county\<close>

lemma sql_eq_None [simp]: "sql_eq a None = False"
  by (cases a) (simp_all add: sql_eq_def)

lemma sql_eq_Some [simp]: "sql_eq a (Some s) = (a = Some s)"
  by (auto simp: sql_eq_def)





subsection \<open>Missing and unknown parameters\<close>

text \<open>
  Claim C6 says that the operations with a required parameter (jurisdictions, districts,
  results) answer a missing or invalid parameter with an empty successful result, never
  with an error; in particular an unknown pair of county and jurisdiction for districts
  and a missing \<open>pctkey\<close> for results give an empty array.

  A missing, empty or placeholder parameter of jurisdictions and districts is answered
  with status 200 and the empty array before the store is asked. A parameter no row
  matches gives the empty array from the query, and so does the missing \<open>pctkey\<close> of
  results, which is bound as \<open>NULL\<close> and equals no key.
\<close>

theorem missing_parameter_empty_result:
  "(\<not> given c \<or> c = Some ''Select County'' \<longrightarrow> api_jurisdictions db c = Response 200 (JArr []))
   \<and> (\<not> given c \<or> \<not> given j \<or> c = Some ''Select County'' \<or> j = Some ''Select Jurisdiction''
        \<longrightarrow> api_districts db c j = Response 200 (JArr []))
   \<and> (list_all (\<lambda>r. county r \<noteq> c) (precincts db)
        \<longrightarrow> api_jurisdictions db c = Response 200 (JArr []))
   \<and> (list_all (\<lambda>r. \<not> (county r = c \<and> jurisdiction r = j)) (precincts db)
        \<longrightarrow> api_districts db c j = Response 200 (JArr []))
   \<and> api_results db None = Response 200 (JArr [])
   \<and> (list_all (\<lambda>r. res_pctkey r \<noteq> k) (results db)
        \<longrightarrow> api_results db k = Response 200 (JArr []))"
proof -
  have empty: "filter P xs = []" if "list_all (\<lambda>r. \<not> P r) xs" for P :: "'a \<Rightarrow> bool" and xs
    using that by (induction xs) simp_all
  have j1: "api_jurisdictions db c = Response 200 (JArr [])"
    if "list_all (\<lambda>r. county r \<noteq> c) (precincts db)"
  proof -
    have "filter (\<lambda>r. sql_eq (county r) c) (precincts db) = []"
      using that by (intro empty) (auto simp: list_all_iff sql_eq_def)
    then show ?thesis
      by (simp add: api_jurisdictions_def select_jurisdictions_def res_json_def)
  qed
  have d1: "api_districts db c j = Response 200 (JArr [])"
    if "list_all (\<lambda>r. \<not> (county r = c \<and> jurisdiction r = j)) (precincts db)"
  proof -
    have "filter (\<lambda>r. sql_eq (county r) c \<and> sql_eq (jurisdiction r) j) (precincts db) = []"
      using that by (intro empty) (auto simp: list_all_iff sql_eq_def)
    then show ?thesis
      by (simp add: api_districts_def select_districts_def res_json_def)
  qed
  have r1: "api_results db k = Response 200 (JArr [])"
    if "list_all (\<lambda>r. res_pctkey r \<noteq> k) (results db)"
  proof -
    have "filter (\<lambda>r. sql_eq (res_pctkey r) k) (results db) = []"
      using that by (intro empty) (auto simp: list_all_iff sql_eq_def)
    then show ?thesis
      by (simp add: api_results_def select_results_def res_json_def)
  qed
  have r0: "api_results db None = Response 200 (JArr [])"
    by (simp add: api_results_def select_results_def res_json_def)
  have j0: "api_jurisdictions db c = Response 200 (JArr [])"
    if "\<not> given c \<or> c = Some ''Select County''"
    using that by (auto simp: api_jurisdictions_def res_json_def)
  have d0: "api_districts db c j = Response 200 (JArr [])"
    if "\<not> given c \<or> \<not> given j \<or> c = Some ''Select County'' \<or> j = Some ''Select Jurisdiction''"
    using that by (auto simp: api_districts_def res_json_def)
  from j0 d0 j1 d1 r0 r1 show ?thesis by blast
qed

theorem missing_parameter_empty_result_witness:
  "\<not> given None
   \<and> api_jurisdictions example_store None = Response 200 (JArr [])
   \<and> api_jurisdictions example_store (Some ''Select County'') = Response 200 (JArr [])
   \<and> api_districts example_store (Some ''Dallas'') (Some ''Select Jurisdiction'') =
       Response 200 (JArr [])
   \<and> list_all (\<lambda>r. county r \<noteq> Some ''Collin'') (precincts example_store)
   \<and> api_jurisdictions example_store (Some ''Collin'') = Response 200 (JArr [])
   \<and> list_all (\<lambda>r. \<not> (county r = Some ''Dallas'' \<and> jurisdiction r = Some ''Plano''))
        (precincts example_store)
   \<and> api_districts example_store (Some ''Dallas'') (Some ''Plano'') = Response 200 (JArr [])
   \<and> api_results example_store None = Response 200 (JArr [])
   \<and> list_all (\<lambda>r. res_pctkey r \<noteq> Some ''P9'') (results example_store)
   \<and> api_results example_store (Some ''P9'') = Response 200 (JArr [])"
proof -
  have h0: "\<not> given None"
    by (simp add: given_def)
  have h1: "list_all (\<lambda>r. county r \<noteq> Some ''Collin'') (precincts example_store)"
    by (simp add: example_precincts)
  have h2: "list_all (\<lambda>r. \<not> (county r = Some ''Dallas'' \<and> jurisdiction r = Some ''Plano''))
        (precincts example_store)"
    by (simp add: example_precincts)
  have h3: "list_all (\<lambda>r. res_pctkey r \<noteq> Some ''P9'') (results example_store)"
    by (simp add: example_results)
  from missing_parameter_empty_result [of None example_store None None] h0
  have a: "api_jurisdictions example_store None = Response 200 (JArr [])
         \<and> api_results example_store None = Response 200 (JArr [])"
    by blast
  from missing_parameter_empty_result [of "Some ''Select County''" example_store None None]
  have b: "api_jurisdictions example_store (Some ''Select County'') = Response 200 (JArr [])"
    by blast
  from missing_parameter_empty_result
    [of "Some ''Dallas''" example_store "Some ''Select Jurisdiction''" None]
  have c: "api_districts example_store (Some ''Dallas'') (Some ''Select Jurisdiction'') =
       Response 200 (JArr [])"
    by blast
  from missing_parameter_empty_result [of "Some ''Collin''" example_store None "Some ''P9''"] h1 h3
  have d: "api_jurisdictions example_store (Some ''Collin'') = Response 200 (JArr [])
         \<and> api_results example_store (Some ''P9'') = Response 200 (JArr [])"
    by blast
  from missing_parameter_empty_result [of "Some ''Dallas''" example_store "Some ''Plano''" None] h2
  have e: "api_districts example_store (Some ''Dallas'') (Some ''Plano'') = Response 200 (JArr [])"
    by blast
  from h0 h1 h2 h3 a b c d e show ?thesis by blast
qed

subsection \<open>Placeholder values of the precinct filters\<close>

text \<open>
  Claim C7 says that for every filter parameter of the precincts operation the
  placeholder string (\<open>Select County\<close>, \<open>Select Jurisdiction\<close>, \<open>Select District\<close>) gives
  the same result as leaving the parameter out: no equality filter is applied for it.
  With all three left out, or all three placeholders, every row is returned.
\<close>

theorem placeholder_same_as_omitted:
  "api_precincts db (Some ''Select County'') j d = api_precincts db None j d
   \<and> api_precincts db c (Some ''Select Jurisdiction'') d = api_precincts db c None d
   \<and> api_precincts db c j (Some ''Select District'') = api_precincts db c j None
   \<and> api_precincts db (Some ''Select County'') (Some ''Select Jurisdiction'')
        (Some ''Select District'') = Response 200 (JArr (map feature_json (precincts db)))"
  by (simp add: api_precincts_def given_def select_precincts_def res_json_def)

subsection \<open>The debug summary\<close>



subsection \<open>Districts are text\<close>

lemma districts_sorted:
  "\<exists>ds. api_districts db c j = Response 200 (JArr (map JStr ds)) \<and> sorted ds \<and> distinct ds"
proof (cases "\<not> given c \<or> \<not> given j \<or> c = Some ''Select County'' \<or> j = Some ''Select Jurisdiction''")
  case True
  then have "api_districts db c j = Response 200 (JArr (map JStr []))"
    by (auto simp: api_districts_def res_json_def)
  then show ?thesis by (intro exI [of _ "[]"]) simp
next
  case False
  define ds where "ds = sort (remdups (List.map_filter district
      (filter (\<lambda>r. sql_eq (county r) c \<and> sql_eq (jurisdiction r) j) (precincts db))))"
  from False have "api_districts db c j = Response 200 (JArr (map JStr ds))"
    by (auto simp: api_districts_def res_json_def select_districts_def ds_def)
  moreover have "sorted ds" "distinct ds" by (simp_all add: ds_def)
  ultimately show ?thesis by blast
qed

lemma loaded_district_text:
  "list_all (\<lambda>row. \<exists>s. district row = Some s) (precincts (load_precincts features create_tables))"
  unfolding list_all_iff using loaded_rows precinct_row_of_district by blast

lemma numeric_district:
  "n \<noteq> 0 \<Longrightarrow> get_prop props ''us_congress'' = Num n \<Longrightarrow>
   district (precinct_row_of i props g) = Some (show_int n)"
  by (simp add: precinct_row_of_def js_or_def Let_def)

lemma example_districts:
  "api_districts (load_precincts example_features create_tables) (Some ''Dallas'') (Some ''Dallas'') =
     Response 200 (JArr [JStr ''10'', JStr ''9''])"
  by code_simp

text \<open>
  Claim C9 says that the district of every precinct row is stored as a string, the
  loader applying \<open>String\<close> to the chosen value even when the property is a number, and
  that the districts operation therefore returns and orders the values as text, numeric
  districts in lexicographic and not in numeric order.

  After a load every row has a text as its district; a number chosen from
  \<open>us_congress\<close> is stored as its decimal text; the districts operation returns texts in
  ascending text order without duplicates; and with the districts 9 and 10 of the
  example it returns \<open>10\<close> before \<open>9\<close>.
\<close>

theorem district_stored_and_ordered_as_text:
  "list_all (\<lambda>row. \<exists>s. district row = Some s) (precincts (load_precincts features create_tables))
   \<and> (n \<noteq> 0 \<and> get_prop props ''us_congress'' = Num n
        \<longrightarrow> district (precinct_row_of i props g) = Some (show_int n))
   \<and> (\<exists>ds. api_districts db c j = Response 200 (JArr (map JStr ds)) \<and> sorted ds \<and> distinct ds)
   \<and> api_districts (load_precincts example_features create_tables) (Some ''Dallas'') (Some ''Dallas'') =
       Response 200 (JArr [JStr ''10'', JStr ''9''])"
  using loaded_district_text numeric_district districts_sorted example_districts by blast

theorem district_stored_and_ordered_as_text_witness:
  "(9::int) \<noteq> 0
   \<and> get_prop [(''pctkey'', Str ''P1''), (''county'', Str ''Dallas''), (''city'', Str ''Dallas''),
               (''us_congress'', Num 9)] ''us_congress'' = Num 9
   \<and> district (precinct_row_of 0 [(''pctkey'', Str ''P1''), (''county'', Str ''Dallas''),
                                  (''city'', Str ''Dallas''), (''us_congress'', Num 9)] None) =
       Some ''9''
   \<and> map district (precincts (load_precincts example_features create_tables)) =
       [Some ''9'', Some ''Unknown'', Some ''10'']
   \<and> list_all (\<lambda>row. \<exists>s. district row = Some s)
        (precincts (load_precincts example_features create_tables))"
proof -
  have h: "get_prop [(''pctkey'', Str ''P1''), (''county'', Str ''Dallas''), (''city'', Str ''Dallas''),
               (''us_congress'', Num 9)] ''us_congress'' = Num 9"
    by (simp add: get_prop_def)
  have s: "show_int 9 = ''9''"
    by code_simp
  have e: "map district (precincts (load_precincts example_features create_tables)) =
       [Some ''9'', Some ''Unknown'', Some ''10'']"
    by code_simp
  from district_stored_and_ordered_as_text
    [of example_features 9 "[(''pctkey'', Str ''P1''), (''county'', Str ''Dallas''),
                              (''city'', Str ''Dallas''), (''us_congress'', Num 9)]" 0 None]
    h s e
  show ?thesis by simp
qed

subsection \<open>The party column\<close>

text \<open>
  Claim C10 says that the results loader reads the party of each record from the CSV
  column \<open>party_simplified\<close> and not from a column \<open>party\<close>: when the records have no
  \<open>party_simplified\<close> field, every stored result row has a null party, even if the CSV
  has a \<open>party\<close> column.

  In whatever order the inserts run, the party of the row at each position is the
  \<open>party_simplified\<close> field of the record inserted there.
\<close>

theorem party_read_from_party_simplified:
  "(run_order order (length csv)
      \<longrightarrow> map party (results (load_results order csv create_tables)) =
            map (\<lambda>i. map_of (csv ! i) ''party_simplified'') order)
   \<and> (list_all (\<lambda>row. map_of row ''party_simplified'' = None) csv
        \<longrightarrow> list_all (\<lambda>r. party r = None) (results (load_results order csv create_tables)))"
proof -
  have eq: "map party (results (load_results order csv create_tables)) =
              map (\<lambda>i. map_of (csv ! i) ''party_simplified'') order"
    if "run_order order (length csv)"
    by (simp add: results_load_results_run_order [OF that] result_row_of_def comp_def)
  have "list_all (\<lambda>r. party r = None) (results (load_results order csv create_tables))"
    if "list_all (\<lambda>row. map_of row ''party_simplified'' = None) csv"
    using that
    by (simp add: results_load_results create_tables_def result_row_of_def list_all_iff)
  with eq show ?thesis by blast
qed

theorem party_read_from_party_simplified_witness:
  "run_order [1, 0] (length example_csv)
   \<and> list_all (\<lambda>row. map_of row ''party_simplified'' = None) example_csv
   \<and> map (\<lambda>row. map_of row ''party'') example_csv = [Some ''X'', Some ''Y'']
   \<and> map party (results (load_results [1, 0] example_csv create_tables)) = [None, None]
   \<and> list_all (\<lambda>r. party r = None) (results (load_results [1, 0] example_csv create_tables))"
proof -
  have r: "run_order [1, 0] (length example_csv)"
    by code_simp
  have h: "list_all (\<lambda>row. map_of row ''party_simplified'' = None) example_csv"
    by (simp add: example_csv_def)
  have p: "map (\<lambda>row. map_of row ''party'') example_csv = [Some ''X'', Some ''Y'']"
    by (simp add: example_csv_def)
  have e: "map (\<lambda>i. map_of (example_csv ! i) ''party_simplified'') [1, 0] = [None, None]"
    by (simp add: example_csv_def)
  from party_read_from_party_simplified [of "[1, 0]" example_csv] r h p e show ?thesis by simp
qed

subsection \<open>The geometry text\<close>

lemma stmt_runs_geometry:
  "i < length (stmt_runs k fs) \<Longrightarrow>
   i < length fs \<and> geometry (stmt_runs k fs ! i) = feat_geometry (fs ! i)"
proof (induction fs arbitrary: i k)
  case Nil
  then show ?case by simp
next
  case (Cons f fs)
  show ?case
  proof (cases "feat_properties f")
    case None
    with Cons.prems show ?thesis by simp
  next
    case (Some props)
    show ?thesis
    proof (cases i)
      case 0
      with Some show ?thesis by (simp add: precinct_row_of_def Let_def)
    next
      case (Suc m)
      with Some Cons.prems Cons.IH [of m "Suc k"] show ?thesis by simp
    qed
  qed
qed

text \<open>
  The loader stores, for the feature at each position it reaches, the text
  \<open>JSON.stringify\<close> returned for its geometry; the table holds only rows the loader
  issued; the precincts operation without parameters returns every row of the table; and
  the geometry of a returned feature is \<open>JSON.parse\<close> of exactly the stored text.
\<close>

theorem geometry_text_kept:
  "(i < length (stmt_runs 0 features)
      \<longrightarrow> geometry (stmt_runs 0 features ! i) = feat_geometry (features ! i))
   \<and> set (precincts (load_precincts features create_tables)) \<subseteq> set (stmt_runs 0 features)
   \<and> api_precincts db None None None = Response 200 (JArr (map feature_json (precincts db)))
   \<and> (geometry row = Some t
        \<longrightarrow> feature_json row =
            JObj [(''type'', JStr ''Feature''),
                  (''properties'',
                     JObj [(''pctkey'', text_json (pctkey row)),
                           (''county'', text_json (county row)),
                           (''jurisdiction'', text_json (jurisdiction row)),
                           (''district'', text_json (district row))]),
                  (''geometry'', JSON_parse t)])"
proof -
  have "set (precincts (load_precincts features create_tables)) \<subseteq> set (stmt_runs 0 features)"
    using foldl_stmt_run_subset [of create_tables "stmt_runs 0 features"]
    by (simp add: load_precincts_def create_tables_def)
  moreover have "api_precincts db None None None =
      Response 200 (JArr (map feature_json (precincts db)))"
    by (simp add: api_precincts_def given_def select_precincts_def res_json_def)
  ultimately show ?thesis
    using stmt_runs_geometry [of i 0 features] by (simp add: feature_json_def)
qed

theorem geometry_text_kept_witness:
  \<open>(2::nat) < length (stmt_runs 0 example_features)
   \<and> geometry (stmt_runs 0 example_features ! 2) = feat_geometry (example_features ! 2)
   \<and> geometry (precincts example_store ! 2) = Some ''{"type":"Point","coordinates":[5,6]}''
   \<and> feature_json (precincts example_store ! 2) =
       JObj [(''type'', JStr ''Feature''),
             (''properties'',
                JObj [(''pctkey'', JStr ''P3''), (''county'', JStr ''Dallas''),
                      (''jurisdiction'', JStr ''Dallas''), (''district'', JStr ''10'')]),
             (''geometry'', JSON_parse ''{"type":"Point","coordinates":[5,6]}'')]\<close>
proof -
  have h: "(2::nat) < length (stmt_runs 0 example_features)"
    by code_simp
  have g: \<open>geometry (precincts example_store ! 2) = Some ''{"type":"Point","coordinates":[5,6]}''\<close>
    by (simp add: example_precincts)
  from geometry_text_kept
    [of 2 example_features example_store "precincts example_store ! 2"
        \<open>''{"type":"Point","coordinates":[5,6]}''\<close>] h g
  show ?thesis by (simp add: example_precincts text_json_def)
qed

subsection \<open>Writing and reading a JSON text\<close>

text \<open>A string that \<open>quote\<close> has written is read back.\<close>

lemma hex_digit_value: "d < 16 \<Longrightarrow> hex_value (''0123456789abcdef'' ! d) = Some d"
proof -
  assume "d < 16"
  then have "d \<in> {0, 1, 2, 3, 4, 5, 6, 7, 8, 9, 10, 11, 12, 13, 14, 15}" by simp arith
  then show ?thesis by (auto simp: hex_value_def)
qed

lemma unicode_escape_control:
  assumes "(of_char c :: nat) < 32"
  shows "unicode_escape (CHR ''0'' # CHR ''0'' # ''0123456789abcdef'' ! (of_char c div 16)
           # ''0123456789abcdef'' ! (of_char c mod 16) # z) = Some ([c], 4)"
proof -
  have a: "hex_value (''0123456789abcdef'' ! (of_char c div 16)) = Some (of_char c div 16)"
    using assms by (intro hex_digit_value) simp
  have b: "hex_value (''0123456789abcdef'' ! (of_char c mod 16)) = Some (of_char c mod 16)"
    by (intro hex_digit_value) simp
  have z: "hex_value CHR ''0'' = Some 0" by (simp add: hex_value_def)
  have h: "hex4 (CHR ''0'' # CHR ''0'' # ''0123456789abcdef'' ! (of_char c div 16)
           # ''0123456789abcdef'' ! (of_char c mod 16) # z) = Some (of_char c)"
    by (simp add: hex4_def a b z)
  from assms show ?thesis
    by (simp add: unicode_escape_def h utf8_def)
qed

lemma parse_string_quote_char:
  "parse_string (quote_char c @ z) =
     (case parse_string z of None \<Rightarrow> None | Some (s, r) \<Rightarrow> Some (c # s, r))"
proof -
  consider "c = CHR 0x22" | "c = CHR 0x5C" | "c = CHR 0x08" | "c = CHR 0x0C" | "c = CHR 0x0A"
    | "c = CHR 0x0D" | "c = CHR 0x09"
    | "c \<notin> {CHR 0x22, CHR 0x5C, CHR 0x08, CHR 0x0C, CHR 0x0A, CHR 0x0D, CHR 0x09}"
      "(of_char c :: nat) < 32"
    | "c \<notin> {CHR 0x22, CHR 0x5C, CHR 0x08, CHR 0x0C, CHR 0x0A, CHR 0x0D, CHR 0x09}"
      "\<not> (of_char c :: nat) < 32"
    by blast
  then show ?thesis
  proof cases
    case 8
    then show ?thesis
      by (simp add: quote_char_def unicode_escape_control split: option.splits)
  next
    case 9
    then show ?thesis
      by (simp add: quote_char_def split: option.splits)
  qed (simp_all add: quote_char_def simple_escape_def split: option.splits)
qed

lemma parse_string_quoted:
  "parse_string (concat (map quote_char s) @ CHR 0x22 # r) = Some (s, r)"
  by (induction s) (simp_all add: parse_string_quote_char)

lemma parse_string_quote: "parse_string (tl (quote s) @ r) = Some (s, r)"
  by (simp add: quote_def parse_string_quoted)


lemma take_char_hit: "P c \<Longrightarrow> take_char P (c # z) = (True, z)"
  by simp






lemma digits_value_Nil [simp]: "digits_value [] = 0"
  by (simp add: digits_value_def)















lemma delimited_comma [simp]: "delimited (CHR '','' # r)" "delimited (CHR '']'' # r)" "delimited (CHR ''}'' # r)"
  by (simp_all add: delimited_def)

lemma not_ws [simp]: "\<not> is_ws CHR '',''" "\<not> is_ws CHR '']''" "\<not> is_ws CHR ''}''" "\<not> is_ws CHR '':''"
  "\<not> is_ws CHR 0x22"
  by (simp_all add: is_ws_def)





subsection \<open>The geometry of a loaded feature\<close>






end
